theory Spec2Isabelle
  imports Complex_Main
begin

section \<open>Go integers\<close>

text \<open>
  Go's \<open>int\<close> is a 64-bit two's-complement integer on the platforms the program is built
  for.  It is modelled by \<open>int\<close>, and every subtraction or multiplication of the source is
  followed by \<open>wrap64\<close>, which brings the mathematical result back into the signed 64-bit
  range the way the machine does.
\<close>

definition wrap64 :: "int \<Rightarrow> int" where
  "wrap64 i = (i + 2 ^ 63) mod 2 ^ 64 - 2 ^ 63"

section \<open>Mouse events (bubbletea)\<close>

text \<open>
  \<open>tea.MouseMsg\<close> is a type of the bubbletea library.  Only the fields the drag handler
  reads are kept: the cursor position, the action and the button.
\<close>

datatype MouseAction = MouseActionPress | MouseActionRelease | MouseActionMotion

datatype MouseButton =
    MouseButtonNone | MouseButtonLeft | MouseButtonMiddle | MouseButtonRight
  | MouseButtonWheelUp | MouseButtonWheelDown | MouseButtonWheelLeft | MouseButtonWheelRight
  | MouseButtonBackward | MouseButtonForward | MouseButton10 | MouseButton11

record MouseMsg =
  X :: int
  Y :: int
  Action :: MouseAction
  Button :: MouseButton

text \<open>
  The hit-test registry (\<open>zone.Get(id).InBounds(msg)\<close> of bubblezone) is a collaborator of
  the program.  It is a parameter of the model: a predicate that says whether the cursor
  of a mouse message lies inside the region last marked under an identifier.
\<close>

type_synonym registry = "string \<Rightarrow> MouseMsg \<Rightarrow> bool"

text \<open>The registry with hit testing switched off: no cursor is inside any region.\<close>

definition disabledRegistry :: registry where
  "disabledRegistry handleID msg = False"

section \<open>The drag handler (drag\_handler.go)\<close>

datatype DragState = DragStateIdle | DragStateDragging

record DragHandler =
  state :: DragState
  dragHandleID :: string
  lastX :: int

definition NewDragHandler :: DragHandler where
  "NewDragHandler = \<lparr>state = DragStateIdle, dragHandleID = '''', lastX = 0\<rparr>"

definition startDrag :: "DragHandler \<Rightarrow> string \<Rightarrow> int \<Rightarrow> DragHandler" where
  "startDrag d handleID x = d\<lparr>state := DragStateDragging, dragHandleID := handleID, lastX := x\<rparr>"

definition stopDrag :: "DragHandler \<Rightarrow> DragHandler" where
  "stopDrag d = d\<lparr>state := DragStateIdle, dragHandleID := '''', lastX := 0\<rparr>"

definition IsDragging :: "DragHandler \<Rightarrow> bool" where
  "IsDragging d = (state d = DragStateDragging)"

definition GetDragHandleID :: "DragHandler \<Rightarrow> string" where
  "GetDragHandleID d = dragHandleID d"

text \<open>
  \<open>HandleMouseEvent\<close> returns the handler after the call together with the three results
  of the Go function: handled, the handle identifier and the horizontal delta.  The loop
  over the handle identifiers of the press branch stops at the first identifier whose
  region holds the cursor, which is \<open>find\<close>.
\<close>

definition HandleMouseEvent ::
  "registry \<Rightarrow> DragHandler \<Rightarrow> MouseMsg \<Rightarrow> string list \<Rightarrow> DragHandler \<times> bool \<times> string \<times> int" where
  "HandleMouseEvent inBounds d msg handleIDs =
     (case Action msg of
        MouseActionPress \<Rightarrow>
          (if Button msg = MouseButtonLeft then
             (case find (\<lambda>handleID. inBounds handleID msg) handleIDs of
                Some handleID \<Rightarrow> (startDrag d handleID (X msg), True, handleID, 0)
              | None \<Rightarrow> (d, False, '''', 0))
           else (d, False, '''', 0))
      | MouseActionMotion \<Rightarrow>
          (if state d = DragStateDragging then
             (let deltaX = wrap64 (X msg - lastX d)
              in (d\<lparr>lastX := X msg\<rparr>, True, dragHandleID d, deltaX))
           else (d, False, '''', 0))
      | MouseActionRelease \<Rightarrow>
          (if state d = DragStateDragging \<and> Button msg = MouseButtonLeft then
             (let handleID = dragHandleID d
              in (stopDrag d, True, handleID, 0))
           else (d, False, '''', 0)))"

text \<open>
  A stream of mouse events delivered to one handler, one after the other: the trace holds,
  for every event, the handler after it and what the call reported.
\<close>

fun handleEvents ::
  "registry \<Rightarrow> string list \<Rightarrow> DragHandler \<Rightarrow> MouseMsg list \<Rightarrow> (DragHandler \<times> bool \<times> string \<times> int) list" where
  "handleEvents inBounds handleIDs d [] = []"
| "handleEvents inBounds handleIDs d (msg # msgs) =
     (let res = HandleMouseEvent inBounds d msg handleIDs
      in res # handleEvents inBounds handleIDs (fst res) msgs)"

section \<open>Floating-point numbers\<close>

text \<open>
  The proportions are \<open>float64\<close> values.  In this section and the next they are
  modelled by the real numbers with exact arithmetic: no rounding, no NaN and no
  infinity.  The section after that writes the rounding of every operation into the
  constructor and the drag, which are the functions whose results depend on it; the
  exact functions are the rounded ones at the rounding that changes nothing.
  \<open>float64(i)\<close> is the embedding of the integers, and \<open>int(x)\<close> is truncation towards
  zero, which is what Go does for a value in the range of \<open>int\<close>.
\<close>

definition toInt :: "real \<Rightarrow> int" where
  "toInt x = (if 0 \<le> x then \<lfloor>x\<rfloor> else \<lceil>x\<rceil>)"

section \<open>The resizable container\<close>

definition handleWidth :: int where
  "handleWidth = 1"

definition minWidthChars :: int where
  "minWidthChars = 35"

definition maxProportion :: real where
  "maxProportion = 70 / 100"

datatype Msg =
    WindowSizeMsg (Width: int) (Height: int)
  | Mouse MouseMsg
  | OtherMsg string

text \<open>
  A child is a \<open>tea.Model\<close>: an interface value whose implementation the container does
  not know.  What the container does to a child is to hand it messages, so a child is
  modelled by the messages it has been handed, oldest first.
\<close>

datatype Child = Child (received: "Msg list")

definition childUpdate :: "Child \<Rightarrow> Msg \<Rightarrow> Child" where
  "childUpdate c msg = Child (received c @ [msg])"

text \<open>
  \<open>LengthMismatch\<close> is the panic of the constructor and \<open>IndexOutOfRange\<close> the run-time
  panic of an index beyond the end of \<open>proportions\<close>.  \<open>NotFinite\<close> stands for the
  container that the constructor builds from a non-empty list of initial proportions
  whose total is zero: the division by that total gives NaN or an infinity in every
  entry, values that the real numbers do not have.  (With no proportion at all there is
  no division, and the constructor returns the empty container.)
\<close>

datatype error = LengthMismatch | IndexOutOfRange | NotFinite

record ResizableContainer =
  id_str :: string
  width :: int
  height :: int
  children :: "Child list"
  proportions :: "real list"
  dragHandler :: DragHandler

text \<open>\<open>strconv.Itoa\<close>: the decimal digits of an integer, with a minus sign when negative.\<close>

definition digitChar :: "nat \<Rightarrow> char" where
  "digitChar n = ''0123456789'' ! n"

fun digits :: "nat \<Rightarrow> string" where
  "digits n = (if n < 10 then [digitChar n]
               else digits (n div 10) @ [digitChar (n mod 10)])"

declare digits.simps [simp del]

definition Itoa :: "int \<Rightarrow> string" where
  "Itoa i = (if i < 0 then CHR ''-'' # digits (nat (- i)) else digits (nat i))"

definition getHandleID :: "ResizableContainer \<Rightarrow> int \<Rightarrow> string" where
  "getHandleID r handleIndex = id_str r @ ''handle_'' @ Itoa handleIndex"

text \<open>
  The loop \<open>for i := 0; i < len(r.children)-1; i++\<close> runs over no index when there is no
  child, as the truncating subtraction of \<open>nat\<close> does.
\<close>

definition getHandleIDs :: "ResizableContainer \<Rightarrow> string list" where
  "getHandleIDs r = map (\<lambda>i. getHandleID r (int i)) [0..<length (children r) - 1]"

definition availableWidth :: "ResizableContainer \<Rightarrow> int" where
  "availableWidth r =
     wrap64 (width r - wrap64 ((int (length (children r)) - 1) * handleWidth))"

text \<open>The loop \<open>total := 0.0; for _, p := range ps { total += p }\<close>.\<close>

definition total :: "real list \<Rightarrow> real" where
  "total ps = foldl (+) 0 ps"

text \<open>The prefix of the identifiers comes from \<open>zone.NewPrefix()\<close> and is a parameter.\<close>

definition NewResizableContainer ::
  "string \<Rightarrow> Child list \<Rightarrow> real list \<Rightarrow> error + ResizableContainer" where
  "NewResizableContainer prefix cs initialProportions =
     (if length cs \<noteq> length initialProportions then Inl LengthMismatch
      else if initialProportions \<noteq> [] \<and> total initialProportions = 0 then Inl NotFinite
      else Inr \<lparr>id_str = prefix, width = 0, height = 0, children = cs,
                proportions = map (\<lambda>p. p / total initialProportions) initialProportions,
                dragHandler = NewDragHandler\<rparr>)"

text \<open>
  The loop that forwards a size to every child (lines 81 to 88, and again 98 to 105):
  child \<open>i\<close> is handed the width \<open>int(float64(availableWidth) * r.proportions[i])\<close> and the
  height of the container.  The two lists are walked together; a child with no
  proportion at its index is the index panic.
\<close>

fun forwardSizes :: "int \<Rightarrow> int \<Rightarrow> Child list \<Rightarrow> real list \<Rightarrow> error + Child list" where
  "forwardSizes aw h [] ps = Inr []"
| "forwardSizes aw h (c # cs) [] = Inl IndexOutOfRange"
| "forwardSizes aw h (c # cs) (p # ps) =
     (case forwardSizes aw h cs ps of
        Inl e \<Rightarrow> Inl e
      | Inr cs' \<Rightarrow> Inr (childUpdate c (WindowSizeMsg (toInt (real_of_int aw * p)) h) # cs'))"

definition resizeChildren :: "ResizableContainer \<Rightarrow> error + ResizableContainer" where
  "resizeChildren r =
     (case forwardSizes (availableWidth r) (height r) (children r) (proportions r) of
        Inl e \<Rightarrow> Inl e
      | Inr cs' \<Rightarrow> Inr (r\<lparr>children := cs'\<rparr>))"

definition normalizeProportions :: "ResizableContainer \<Rightarrow> ResizableContainer" where
  "normalizeProportions r =
     (let t = total (proportions r)
      in if t > 0 then r\<lparr>proportions := map (\<lambda>p. p / t) (proportions r)\<rparr> else r)"

text \<open>
  The four constraint checks of \<open>updateProportionsFromDrag\<close>, one function each, on the
  pair \<open>(newLeftProp, newRightProp)\<close>.  \<open>pL\<close> and \<open>pR\<close> are the proportions of the two
  panes before the drag.
\<close>

definition clampLeftMin :: "real \<Rightarrow> real \<Rightarrow> real \<Rightarrow> real \<times> real \<Rightarrow> real \<times> real" where
  "clampLeftMin pL pR minProportion np =
     (if fst np < minProportion then (minProportion, pR + (pL - minProportion)) else np)"

definition clampLeftMax :: "real \<Rightarrow> real \<Rightarrow> real \<times> real \<Rightarrow> real \<times> real" where
  "clampLeftMax pL pR np =
     (if fst np > maxProportion then (maxProportion, pR + (pL - maxProportion)) else np)"

definition clampRightMin :: "real \<Rightarrow> real \<Rightarrow> real \<Rightarrow> real \<times> real \<Rightarrow> real \<times> real" where
  "clampRightMin pL pR minProportion np =
     (if snd np < minProportion then (pL + (pR - minProportion), minProportion) else np)"

definition clampRightMax :: "real \<Rightarrow> real \<Rightarrow> real \<times> real \<Rightarrow> real \<times> real" where
  "clampRightMax pL pR np =
     (if snd np > maxProportion then (pL + (pR - maxProportion), maxProportion) else np)"

definition enforceConstraints :: "real \<Rightarrow> real \<Rightarrow> real \<Rightarrow> real \<times> real \<Rightarrow> real \<times> real" where
  "enforceConstraints pL pR minProportion np =
     clampRightMax pL pR
       (clampRightMin pL pR minProportion
          (clampLeftMax pL pR
             (clampLeftMin pL pR minProportion np)))"

text \<open>
  Lines 211 to 239: the tentative pair for a drag by \<open>deltaX\<close> columns in an available
  width \<open>aw\<close>, then the four checks in the order of the source.
\<close>

definition redistribute :: "real \<Rightarrow> real \<Rightarrow> int \<Rightarrow> int \<Rightarrow> real \<times> real" where
  "redistribute pL pR aw deltaX =
     (let deltaPercent = real_of_int deltaX / real_of_int aw;
          newLeftProp = pL + deltaPercent;
          newRightProp = pR - deltaPercent;
          minProportion = real_of_int minWidthChars / real_of_int aw
      in enforceConstraints pL pR minProportion (newLeftProp, newRightProp))"

text \<open>The search for the dragged handle: the first index whose identifier matches, or -1.\<close>

definition findHandleIndex :: "ResizableContainer \<Rightarrow> string \<Rightarrow> int" where
  "findHandleIndex r handleID =
     (case find (\<lambda>i. getHandleID r (int i) = handleID) [0..<length (children r) - 1] of
        None \<Rightarrow> - 1
      | Some i \<Rightarrow> int i)"

definition updateProportionsFromDrag ::
  "ResizableContainer \<Rightarrow> string \<Rightarrow> int \<Rightarrow> error + ResizableContainer" where
  "updateProportionsFromDrag r handleID deltaX =
     (let handleIndex = findHandleIndex r handleID in
      if handleIndex = - 1 then Inr r
      else
        let aw = availableWidth r in
        if aw \<le> 0 then Inr r
        else
          let leftIndex = nat handleIndex;
              rightIndex = nat (handleIndex + 1)
          in
          if length (proportions r) \<le> rightIndex then Inl IndexOutOfRange
          else
            let np = redistribute (proportions r ! leftIndex) (proportions r ! rightIndex)
                       aw deltaX
            in Inr (normalizeProportions
                      (r\<lparr>proportions :=
                           (proportions r)[leftIndex := fst np, rightIndex := snd np]\<rparr>)))"

text \<open>
  \<open>Update\<close>, with the registry seen by the drag handler as a parameter.  The command it
  returns is always \<open>nil\<close> and is left out.
\<close>

definition Update :: "registry \<Rightarrow> ResizableContainer \<Rightarrow> Msg \<Rightarrow> error + ResizableContainer" where
  "Update inBounds r msg =
     (case msg of
        WindowSizeMsg w h \<Rightarrow> resizeChildren (r\<lparr>width := w, height := h\<rparr>)
      | Mouse m \<Rightarrow>
          (case HandleMouseEvent inBounds (dragHandler r) m (getHandleIDs r) of
             (d', handled, handleID, deltaX) \<Rightarrow>
               (if handled \<and> deltaX \<noteq> 0 then
                  (case updateProportionsFromDrag (r\<lparr>dragHandler := d'\<rparr>) handleID deltaX of
                     Inl e \<Rightarrow> Inl e
                   | Inr r' \<Rightarrow> resizeChildren r')
                else if \<not> handled then
                  Inr (r\<lparr>dragHandler := d',
                          children := map (\<lambda>c. childUpdate c msg) (children r)\<rparr>)
                else Inr (r\<lparr>dragHandler := d'\<rparr>)))
      | OtherMsg x \<Rightarrow> Inr (r\<lparr>children := map (\<lambda>c. childUpdate c msg) (children r)\<rparr>))"

text \<open>
  A sequence of operations on one container: a message delivered through \<open>Update\<close> under
  the registry of that moment (a resize is the delivery of a \<open>WindowSizeMsg\<close>), or a
  direct call of \<open>updateProportionsFromDrag\<close>.  A panic ends the run.
\<close>

datatype Op = Deliver registry Msg | Drag string int

fun applyOp :: "ResizableContainer \<Rightarrow> Op \<Rightarrow> error + ResizableContainer" where
  "applyOp r (Deliver inBounds msg) = Update inBounds r msg"
| "applyOp r (Drag handleID deltaX) = updateProportionsFromDrag r handleID deltaX"

fun applyOps :: "ResizableContainer \<Rightarrow> Op list \<Rightarrow> error + ResizableContainer" where
  "applyOps r [] = Inr r"
| "applyOps r (op # ops) =
     (case applyOp r op of Inl e \<Rightarrow> Inl e | Inr r' \<Rightarrow> applyOps r' ops)"

section \<open>The same arithmetic with rounding\<close>

text \<open>
  Every \<open>float64\<close> operation of the source returns the exact result rounded to a
  \<open>float64\<close>.  The functions of this section are the constructor and the drag again, with
  the rounding written out: the rounding is a parameter \<open>fl\<close>, applied to the result of
  every addition, subtraction and division, to every conversion of an integer and to the
  constant \<open>0.70\<close>.  What is proved of them for every \<open>fl\<close> holds of the code whatever the
  rounding does.  \<open>exact\<close> is the rounding that changes nothing, which gives the functions
  of the section before; \<open>fl64\<close> is the rounding of the machine.
\<close>

type_synonym rounding = "real \<Rightarrow> real"

definition exact :: rounding where
  "exact x = x"

text \<open>
  \<open>fl64\<close> rounds to the nearest \<open>float64\<close>, ties to the even significand: 53 significant
  bits above \<open>2 ^ (-1022)\<close> and the fixed spacing \<open>2 ^ (-1074)\<close> below.  \<open>binade n x\<close> is the
  exponent \<open>e\<close> with \<open>2 ^ e \<le> x < 2 ^ (e + 1)\<close>, found in at most \<open>n\<close> halvings or
  doublings.  A magnitude beyond the largest \<open>float64\<close>, where the machine has an infinity,
  is rounded as if the exponent had no upper limit.
\<close>

fun binade :: "nat \<Rightarrow> real \<Rightarrow> int" where
  "binade 0 x = 0"
| "binade (Suc n) x =
     (if 2 \<le> x then binade n (x / 2) + 1
      else if x < 1 then binade n (x * 2) - 1
      else 0)"

definition roundEven :: "real \<Rightarrow> int" where
  "roundEven y =
     (let k = \<lfloor>y\<rfloor>; f = y - real_of_int k
      in if f < 1 / 2 then k
         else if 1 / 2 < f then k + 1
         else if even k then k else k + 1)"

definition fl64 :: rounding where
  "fl64 x =
     (if x = 0 then 0
      else
        let e = max (binade 1100 \<bar>x\<bar>) (- 1022);
            q = 2 powi (e - 52)
        in real_of_int (roundEven (x / q)) * q)"

definition maxProportion_fl :: "rounding \<Rightarrow> real" where
  "maxProportion_fl fl = fl (70 / 100)"

definition total_fl :: "rounding \<Rightarrow> real list \<Rightarrow> real" where
  "total_fl fl ps = foldl (\<lambda>t p. fl (t + p)) 0 ps"

definition NewResizableContainer_fl ::
  "rounding \<Rightarrow> string \<Rightarrow> Child list \<Rightarrow> real list \<Rightarrow> error + ResizableContainer" where
  "NewResizableContainer_fl fl prefix cs initialProportions =
     (if length cs \<noteq> length initialProportions then Inl LengthMismatch
      else if initialProportions \<noteq> [] \<and> total_fl fl initialProportions = 0 then Inl NotFinite
      else Inr \<lparr>id_str = prefix, width = 0, height = 0, children = cs,
                proportions =
                  map (\<lambda>p. fl (p / total_fl fl initialProportions)) initialProportions,
                dragHandler = NewDragHandler\<rparr>)"

definition normalizeProportions_fl :: "rounding \<Rightarrow> ResizableContainer \<Rightarrow> ResizableContainer" where
  "normalizeProportions_fl fl r =
     (let t = total_fl fl (proportions r)
      in if t > 0 then r\<lparr>proportions := map (\<lambda>p. fl (p / t)) (proportions r)\<rparr> else r)"

definition clampLeftMin_fl ::
  "rounding \<Rightarrow> real \<Rightarrow> real \<Rightarrow> real \<Rightarrow> real \<times> real \<Rightarrow> real \<times> real" where
  "clampLeftMin_fl fl pL pR minProportion np =
     (if fst np < minProportion
      then (minProportion, fl (pR + fl (pL - minProportion))) else np)"

definition clampLeftMax_fl ::
  "rounding \<Rightarrow> real \<Rightarrow> real \<Rightarrow> real \<times> real \<Rightarrow> real \<times> real" where
  "clampLeftMax_fl fl pL pR np =
     (if fst np > maxProportion_fl fl
      then (maxProportion_fl fl, fl (pR + fl (pL - maxProportion_fl fl))) else np)"

definition clampRightMin_fl ::
  "rounding \<Rightarrow> real \<Rightarrow> real \<Rightarrow> real \<Rightarrow> real \<times> real \<Rightarrow> real \<times> real" where
  "clampRightMin_fl fl pL pR minProportion np =
     (if snd np < minProportion
      then (fl (pL + fl (pR - minProportion)), minProportion) else np)"

definition clampRightMax_fl ::
  "rounding \<Rightarrow> real \<Rightarrow> real \<Rightarrow> real \<times> real \<Rightarrow> real \<times> real" where
  "clampRightMax_fl fl pL pR np =
     (if snd np > maxProportion_fl fl
      then (fl (pL + fl (pR - maxProportion_fl fl)), maxProportion_fl fl) else np)"

definition enforceConstraints_fl ::
  "rounding \<Rightarrow> real \<Rightarrow> real \<Rightarrow> real \<Rightarrow> real \<times> real \<Rightarrow> real \<times> real" where
  "enforceConstraints_fl fl pL pR minProportion np =
     clampRightMax_fl fl pL pR
       (clampRightMin_fl fl pL pR minProportion
          (clampLeftMax_fl fl pL pR
             (clampLeftMin_fl fl pL pR minProportion np)))"

definition minProportion_fl :: "rounding \<Rightarrow> int \<Rightarrow> real" where
  "minProportion_fl fl aw = fl (fl (real_of_int minWidthChars) / fl (real_of_int aw))"

definition redistribute_fl :: "rounding \<Rightarrow> real \<Rightarrow> real \<Rightarrow> int \<Rightarrow> int \<Rightarrow> real \<times> real" where
  "redistribute_fl fl pL pR aw deltaX =
     (let deltaPercent = fl (fl (real_of_int deltaX) / fl (real_of_int aw));
          newLeftProp = fl (pL + deltaPercent);
          newRightProp = fl (pR - deltaPercent);
          minProportion = minProportion_fl fl aw
      in enforceConstraints_fl fl pL pR minProportion (newLeftProp, newRightProp))"


definition updateProportionsFromDrag_fl ::
  "rounding \<Rightarrow> ResizableContainer \<Rightarrow> string \<Rightarrow> int \<Rightarrow> error + ResizableContainer" where
  "updateProportionsFromDrag_fl fl r handleID deltaX =
     (let handleIndex = findHandleIndex r handleID in
      if handleIndex = - 1 then Inr r
      else
        let aw = availableWidth r in
        if aw \<le> 0 then Inr r
        else
          let leftIndex = nat handleIndex;
              rightIndex = nat (handleIndex + 1)
          in
          if length (proportions r) \<le> rightIndex then Inl IndexOutOfRange
          else
            let np = redistribute_fl fl (proportions r ! leftIndex) (proportions r ! rightIndex)
                       aw deltaX
            in Inr (normalizeProportions_fl fl
                      (r\<lparr>proportions :=
                           (proportions r)[leftIndex := fst np, rightIndex := snd np]\<rparr>)))"

section \<open>Auxiliary facts\<close>

lemma foldl_plus_sum_list: "foldl (+) a ps = a + sum_list (ps :: real list)"
  by (induction ps arbitrary: a) simp_all

lemma total_sum_list: "total ps = sum_list ps"
  by (simp add: total_def foldl_plus_sum_list)

lemma sum_list_update_real:
  fixes xs :: "real list"
  shows "k < length xs \<Longrightarrow> sum_list (xs[k := x]) = sum_list xs + x - xs ! k"
proof (induction xs arbitrary: k)
  case Nil
  then show ?case by simp
next
  case (Cons y ys)
  then show ?case by (cases k) simp_all
qed

lemma sum_list_update2:
  fixes ps :: "real list"
  assumes "Suc i < length ps" and "a + b = ps ! i + ps ! Suc i"
  shows "sum_list (ps[i := a, Suc i := b]) = sum_list ps"
proof -
  have "sum_list (ps[i := a, Suc i := b]) = sum_list (ps[i := a]) + b - ps[i := a] ! Suc i"
    using assms(1) by (simp add: sum_list_update_real)
  also have "\<dots> = sum_list ps + a - ps ! i + b - ps ! Suc i"
    using assms(1) by (simp add: sum_list_update_real)
  finally show ?thesis
    using assms(2) by simp
qed

subsection \<open>Forwarding sizes\<close>

lemma forwardSizes_ok:
  "length cs \<le> length ps \<Longrightarrow>
   forwardSizes aw h cs ps
     = Inr (map2 (\<lambda>c p. childUpdate c (WindowSizeMsg (toInt (real_of_int aw * p)) h)) cs ps)"
  by (induction aw h cs ps rule: forwardSizes.induct) simp_all

lemma resizeChildren_ok:
  "length (children r) \<le> length (proportions r) \<Longrightarrow>
   resizeChildren r
     = Inr (r\<lparr>children :=
              map2 (\<lambda>c p. childUpdate c
                     (WindowSizeMsg (toInt (real_of_int (availableWidth r) * p)) (height r)))
                (children r) (proportions r)\<rparr>)"
  by (simp add: resizeChildren_def forwardSizes_ok)

subsection \<open>The four checks keep the sum of the pair\<close>

lemma clampLeftMin_sum:
  "fst np + snd np = pL + pR \<Longrightarrow>
   fst (clampLeftMin pL pR m np) + snd (clampLeftMin pL pR m np) = pL + pR"
  by (simp add: clampLeftMin_def)

lemma clampLeftMax_sum:
  "fst np + snd np = pL + pR \<Longrightarrow>
   fst (clampLeftMax pL pR np) + snd (clampLeftMax pL pR np) = pL + pR"
  by (simp add: clampLeftMax_def)

lemma clampRightMin_sum:
  "fst np + snd np = pL + pR \<Longrightarrow>
   fst (clampRightMin pL pR m np) + snd (clampRightMin pL pR m np) = pL + pR"
  by (simp add: clampRightMin_def)

lemma clampRightMax_sum:
  "fst np + snd np = pL + pR \<Longrightarrow>
   fst (clampRightMax pL pR np) + snd (clampRightMax pL pR np) = pL + pR"
  by (simp add: clampRightMax_def)

lemma enforceConstraints_sum:
  "fst np + snd np = pL + pR \<Longrightarrow>
   fst (enforceConstraints pL pR m np) + snd (enforceConstraints pL pR m np) = pL + pR"
  unfolding enforceConstraints_def
  by (intro clampRightMax_sum clampRightMin_sum clampLeftMax_sum clampLeftMin_sum)

lemma redistribute_sum:
  "fst (redistribute pL pR aw dx) + snd (redistribute pL pR aw dx) = pL + pR"
  unfolding redistribute_def Let_def by (rule enforceConstraints_sum) simp

subsection \<open>The branches of a drag\<close>

lemma findHandleIndex_cases:
  "findHandleIndex r hid = - 1 \<and> hid \<notin> set (getHandleIDs r)
   \<or> (\<exists>i. findHandleIndex r hid = int i \<and> i < length (children r) - 1
           \<and> getHandleID r (int i) = hid)"
proof (cases "find (\<lambda>i. getHandleID r (int i) = hid) [0..<length (children r) - 1]")
  case None
  then have "hid \<notin> set (getHandleIDs r)"
    by (auto simp: find_None_iff getHandleIDs_def)
  with None show ?thesis
    by (simp add: findHandleIndex_def)
next
  case (Some i)
  then have "i < length (children r) - 1 \<and> getHandleID r (int i) = hid"
    by (auto simp: find_Some_iff)
  with Some show ?thesis
    by (simp add: findHandleIndex_def)
qed

lemma drag_noop_unknown:
  "findHandleIndex r hid = - 1 \<Longrightarrow> updateProportionsFromDrag r hid dx = Inr r"
  by (simp add: updateProportionsFromDrag_def)

lemma drag_noop_degenerate:
  "availableWidth r \<le> 0 \<Longrightarrow> updateProportionsFromDrag r hid dx = Inr r"
  by (simp add: updateProportionsFromDrag_def Let_def)


subsection \<open>Handle identifiers\<close>

lemma digitChar_inj: "a < 10 \<Longrightarrow> b < 10 \<Longrightarrow> digitChar a = digitChar b \<Longrightarrow> a = b"
proof -
  assume a: "a < 10" and b: "b < 10" and e: "digitChar a = digitChar b"
  have d: "distinct ''0123456789''" by simp
  have "a < length ''0123456789''" "b < length ''0123456789''"
    using a b by simp_all
  with d e show "a = b"
    unfolding digitChar_def by (simp only: nth_eq_iff_index_eq)
qed

lemma digits_nonempty: "digits n \<noteq> []"
  by (subst digits.simps) simp

lemma digits_inj: "digits n = digits m \<Longrightarrow> n = m"
proof (induction n arbitrary: m rule: digits.induct)
  case (1 n)
  show ?case
  proof (cases "n < 10")
    case True
    note n = this
    show ?thesis
    proof (cases "m < 10")
      case True
      with n "1.prems" have "digitChar n = digitChar m"
        by (simp add: digits.simps)
      with n True show ?thesis by (rule digitChar_inj)
    next
      case False
      with n "1.prems" have "digits (m div 10) = []"
        by (simp add: digits.simps [of n] digits.simps [of m])
      then show ?thesis by (simp add: digits_nonempty)
    qed
  next
    case False
    note n = this
    show ?thesis
    proof (cases "m < 10")
      case True
      with n "1.prems" have "digits (n div 10) = []"
        by (simp add: digits.simps [of n] digits.simps [of m])
      then show ?thesis by (simp add: digits_nonempty)
    next
      case False
      with n "1.prems" have e: "digits (n div 10) = digits (m div 10)"
          and c: "digitChar (n mod 10) = digitChar (m mod 10)"
        by (simp_all add: digits.simps [of n] digits.simps [of m])
      have "n div 10 = m div 10"
        using "1.IH" [OF n e] .
      moreover have "n mod 10 = m mod 10"
        using c by (intro digitChar_inj) simp_all
      ultimately show ?thesis
        by (metis div_mult_mod_eq)
    qed
  qed
qed

lemma getHandleID_inj: "getHandleID r (int a) = getHandleID r (int b) \<Longrightarrow> a = b"
  by (simp add: getHandleID_def Itoa_def digits_inj)

lemma findHandleIndex_own:
  assumes "h < length (children r) - 1"
  shows "findHandleIndex r (getHandleID r (int h)) = int h"
proof -
  have "find (\<lambda>i. getHandleID r (int i) = getHandleID r (int h)) [0..<length (children r) - 1] = Some h"
    unfolding find_Some_iff
    using assms by (intro exI [of _ h]) (auto dest: getHandleID_inj)
  then show ?thesis
    by (simp add: findHandleIndex_def)
qed

subsection \<open>The sum of the proportions\<close>




lemma committed_sum:
  assumes "Suc i < length (proportions r)"
  shows "sum_list ((proportions r)
           [i := fst (redistribute (proportions r ! i) (proportions r ! Suc i) aw dx),
            Suc i := snd (redistribute (proportions r ! i) (proportions r ! Suc i) aw dx)])
         = sum_list (proportions r)"
  using assms by (simp add: sum_list_update2 redistribute_sum)







subsection \<open>Forwarded widths\<close>

lemma toInt_nonpos: "x \<le> 0 \<Longrightarrow> toInt x \<le> 0"
  by (auto simp: toInt_def ceiling_le_zero)

lemma map2_childUpdate_nth:
  assumes "i < length cs" and "length cs \<le> length ps"
  shows "received (map2 (\<lambda>c p. childUpdate c (f p)) cs ps ! i) = received (cs ! i) @ [f (ps ! i)]"
  using assms by (simp add: childUpdate_def)

subsection \<open>The rounded functions\<close>

lemma binade_numeral:
  "binade (numeral k) x =
     (if 2 \<le> x then binade (pred_numeral k) (x / 2) + 1
      else if x < 1 then binade (pred_numeral k) (x * 2) - 1
      else 0)"
  by (simp add: numeral_eq_Suc)

lemmas fl64_eval = fl64_def roundEven_def binade_numeral Let_def power_int_minus

lemmas rounded_eval =
  updateProportionsFromDrag_fl_def redistribute_fl_def enforceConstraints_fl_def
  clampLeftMin_fl_def clampLeftMax_fl_def clampRightMin_fl_def clampRightMax_fl_def
  minProportion_fl_def maxProportion_fl_def normalizeProportions_fl_def total_fl_def
  NewResizableContainer_fl_def minWidthChars_def findHandleIndex_def getHandleID_def Itoa_def
  digits.simps digitChar_def availableWidth_def wrap64_def handleWidth_def NewDragHandler_def

lemma exact_eq: "(\<forall>x. fl x = x) \<Longrightarrow> fl = exact"
  by (auto simp: exact_def fun_eq_iff)

lemma total_fl_exact: "total_fl exact ps = total ps"
  by (simp add: total_fl_def total_def exact_def)

lemma redistribute_fl_exact: "redistribute_fl exact pL pR aw dx = redistribute pL pR aw dx"
  by (simp add: redistribute_fl_def redistribute_def enforceConstraints_fl_def
        enforceConstraints_def clampLeftMin_fl_def clampLeftMin_def clampLeftMax_fl_def
        clampLeftMax_def clampRightMin_fl_def clampRightMin_def clampRightMax_fl_def
        clampRightMax_def minProportion_fl_def maxProportion_fl_def maxProportion_def
        exact_def Let_def)

lemma normalizeProportions_fl_exact: "normalizeProportions_fl exact r = normalizeProportions r"
  by (simp add: normalizeProportions_fl_def normalizeProportions_def total_fl_exact
        exact_def Let_def)

lemma updateProportionsFromDrag_fl_exact:
  "updateProportionsFromDrag_fl exact r hid dx = updateProportionsFromDrag r hid dx"
  by (simp add: updateProportionsFromDrag_fl_def updateProportionsFromDrag_def
        redistribute_fl_exact normalizeProportions_fl_exact Let_def)

lemma NewResizableContainer_fl_exact:
  "NewResizableContainer_fl exact prefix cs ps = NewResizableContainer prefix cs ps"
  by (simp add: NewResizableContainer_fl_def NewResizableContainer_def total_fl_exact
        exact_def Let_def)

lemma drag_fl_noop_degenerate:
  "availableWidth r \<le> 0 \<Longrightarrow> updateProportionsFromDrag_fl fl r hid dx = Inr r"
  by (simp add: updateProportionsFromDrag_fl_def Let_def)

lemma drag_fl_commit:
  assumes "findHandleIndex r hid = int i" and "0 < availableWidth r"
      and "Suc i < length (proportions r)"
  shows "updateProportionsFromDrag_fl fl r hid dx
           = Inr (normalizeProportions_fl fl
                    (r\<lparr>proportions :=
                         (proportions r)
                           [i := fst (redistribute_fl fl (proportions r ! i) (proportions r ! Suc i)
                                        (availableWidth r) dx),
                            Suc i := snd (redistribute_fl fl (proportions r ! i) (proportions r ! Suc i)
                                        (availableWidth r) dx)]\<rparr>))"
proof -
  have "nat (int i + 1) = Suc i" by simp
  then show ?thesis
    using assms by (simp add: updateProportionsFromDrag_fl_def Let_def)
qed

lemma redistribute_fl_steps:
  "redistribute_fl fl pL pR aw deltaX =
     (let lo = minProportion_fl fl aw; hi = maxProportion_fl fl;
          deltaPercent = fl (fl (real_of_int deltaX) / fl (real_of_int aw));
          s0 = (fl (pL + deltaPercent), fl (pR - deltaPercent));
          s1 = (if fst s0 < lo then (lo, fl (pR + fl (pL - lo))) else s0);
          s2 = (if hi < fst s1 then (hi, fl (pR + fl (pL - hi))) else s1);
          s3 = (if snd s2 < lo then (fl (pL + fl (pR - lo)), lo) else s2);
          s4 = (if hi < snd s3 then (fl (pL + fl (pR - hi)), hi) else s3)
      in s4)"
  by (simp add: redistribute_fl_def enforceConstraints_fl_def clampLeftMin_fl_def
        clampLeftMax_fl_def clampRightMin_fl_def clampRightMax_fl_def Let_def)

lemma redistribute_fl_right_upper:
  "snd (redistribute_fl fl pL pR aw dx) \<le> maxProportion_fl fl"
  by (simp add: redistribute_fl_steps Let_def)

lemma redistribute_fl_right_lower:
  "minProportion_fl fl aw \<le> maxProportion_fl fl \<Longrightarrow>
   minProportion_fl fl aw \<le> snd (redistribute_fl fl pL pR aw dx)"
  by (simp add: redistribute_fl_steps Let_def)

lemma redistribute_fl_left:
  "minProportion_fl fl aw \<le> maxProportion_fl fl \<Longrightarrow>
   minProportion_fl fl aw \<le> fst (redistribute_fl fl pL pR aw dx)
     \<and> fst (redistribute_fl fl pL pR aw dx) \<le> maxProportion_fl fl
   \<or> fst (redistribute_fl fl pL pR aw dx)
        = fl (pL + fl (pR - snd (redistribute_fl fl pL pR aw dx)))"
  by (simp add: redistribute_fl_steps Let_def)

lemma redistribute_left_upper_exact:
  assumes "pL + pR \<le> 2 * maxProportion"
  shows "fst (redistribute pL pR aw dx) \<le> maxProportion"
  using assms
  unfolding redistribute_def Let_def enforceConstraints_def clampLeftMin_def clampLeftMax_def
    clampRightMin_def clampRightMax_def
  by (auto split: if_splits)

lemma redistribute_left_lower_exact:
  assumes "real_of_int minWidthChars / real_of_int aw \<le> maxProportion"
      and "2 * (real_of_int minWidthChars / real_of_int aw) \<le> pL + pR"
  shows "real_of_int minWidthChars / real_of_int aw \<le> fst (redistribute pL pR aw dx)"
  using assms
  unfolding redistribute_def Let_def enforceConstraints_def clampLeftMin_def clampLeftMax_def
    clampRightMin_def clampRightMax_def
  by (auto split: if_splits)

lemma normalizeProportions_fl_eq:
  "normalizeProportions_fl fl r
     = r\<lparr>proportions :=
           (if 0 < total_fl fl (proportions r)
            then map (\<lambda>p. fl (p / total_fl fl (proportions r))) (proportions r)
            else proportions r)\<rparr>"
  by (simp add: normalizeProportions_fl_def Let_def)

subsection \<open>The error of the rounding\<close>














text \<open>The definitions that evaluate the model on a concrete container.\<close>

lemmas container_eval =
  updateProportionsFromDrag_def findHandleIndex_def getHandleIDs_def getHandleID_def Itoa_def
  digits.simps digitChar_def availableWidth_def wrap64_def handleWidth_def Let_def
  redistribute_def enforceConstraints_def clampLeftMin_def clampLeftMax_def clampRightMin_def
  clampRightMax_def minWidthChars_def maxProportion_def normalizeProportions_def total_def
  resizeChildren_def childUpdate_def toInt_def Update_def HandleMouseEvent_def
  NewResizableContainer_def NewDragHandler_def startDrag_def stopDrag_def disabledRegistry_def

section \<open>Properties of the container\<close>



text \<open>
  Claim C2, as the source has it.  The claim fails as stated: with three panes at
  \<open>[0.33, 0.33, 0.34]\<close> in a container of width 100 (available width 98, minimum
  proportion \<open>35/98\<close>), a drag of handle 0 by one column commits
  \<open>[53/175, 5/14, 17/50]\<close>, where the dragged pane 0 and the untouched pane 2 are both
  below the minimum.
\<close>

theorem redistribution_bounds_counterexample:
  "updateProportionsFromDrag
     \<lparr>id_str = ''p'', width = 100, height = 24, children = [Child [], Child [], Child []],
        proportions = [33 / 100, 33 / 100, 34 / 100], dragHandler = NewDragHandler\<rparr>
     ''phandle_0'' 1
   = Inr \<lparr>id_str = ''p'', width = 100, height = 24, children = [Child [], Child [], Child []],
            proportions = [53 / 175, 5 / 14, 17 / 50], dragHandler = NewDragHandler\<rparr>
   \<and> availableWidth
       \<lparr>id_str = ''p'', width = 100, height = 24, children = [Child [], Child [], Child []],
          proportions = [33 / 100, 33 / 100, 34 / 100], dragHandler = NewDragHandler\<rparr> = 98
   \<and> (53 / 175 :: real) < real_of_int minWidthChars / real_of_int 98
   \<and> (17 / 50 :: real) < real_of_int minWidthChars / real_of_int 98"
  by (simp add: container_eval)

text \<open>
  Claim C2, amended.  For every rounding, a drag of handle \<open>i\<close> that commits writes a pair
  \<open>(newL, newR)\<close> at the indices \<open>i\<close> and \<open>i + 1\<close> and then divides every entry of the
  vector by its total, when that total is positive.  With \<open>lo\<close> the minimum proportion
  \<open>minWidthChars / availableWidth\<close> and \<open>hi\<close> the maximum proportion: \<open>newR\<close> is at most
  \<open>hi\<close>, and at least \<open>lo\<close> when \<open>lo \<le> hi\<close>; when \<open>lo \<le> hi\<close>, \<open>newL\<close> is between \<open>lo\<close> and
  \<open>hi\<close> or it is the rest of the pair, \<open>pL + (pR - newR)\<close>, which no check bounds.  In
  exact arithmetic that rest is at most \<open>hi\<close> when the two proportions before the drag
  sum to at most twice \<open>hi\<close>, and at least \<open>lo\<close> when they sum to at least twice \<open>lo\<close>.
  Nothing bounds the panes outside the pair, and the division by the total comes after
  the checks.
\<close>

theorem drag_pair_within_bounds:
  assumes "length (children r) = length (proportions r)"
      and "i < length (children r) - 1"
      and "0 < availableWidth r"
  shows "let pL = proportions r ! i; pR = proportions r ! Suc i;
             lo = minProportion_fl fl (availableWidth r); hi = maxProportion_fl fl;
             np = redistribute_fl fl pL pR (availableWidth r) deltaX;
             v = (proportions r)[i := fst np, Suc i := snd np];
             t = total_fl fl v
         in updateProportionsFromDrag_fl fl r (getHandleID r (int i)) deltaX
              = Inr (r\<lparr>proportions := (if 0 < t then map (\<lambda>p. fl (p / t)) v else v)\<rparr>)
            \<and> snd np \<le> hi
            \<and> (lo \<le> hi \<longrightarrow> lo \<le> snd np)
            \<and> (lo \<le> hi \<longrightarrow>
                  lo \<le> fst np \<and> fst np \<le> hi \<or> fst np = fl (pL + fl (pR - snd np)))
            \<and> ((\<forall>x. fl x = x) \<and> pL + pR \<le> 2 * hi \<longrightarrow> fst np \<le> hi)
            \<and> ((\<forall>x. fl x = x) \<and> lo \<le> hi \<and> 2 * lo \<le> pL + pR \<longrightarrow> lo \<le> fst np)"
proof -
  define pL where "pL = proportions r ! i"
  define pR where "pR = proportions r ! Suc i"
  define np where "np = redistribute_fl fl pL pR (availableWidth r) deltaX"
  define v where "v = (proportions r)[i := fst np, Suc i := snd np]"
  have f: "findHandleIndex r (getHandleID r (int i)) = int i"
    using assms(2) by (rule findHandleIndex_own)
  have len: "Suc i < length (proportions r)"
    using assms(1,2) by simp
  have c: "updateProportionsFromDrag_fl fl r (getHandleID r (int i)) deltaX
             = Inr (r\<lparr>proportions :=
                      (if 0 < total_fl fl v then map (\<lambda>p. fl (p / total_fl fl v)) v else v)\<rparr>)"
    using drag_fl_commit [OF f assms(3) len, of fl deltaX]
    by (simp add: normalizeProportions_fl_eq v_def np_def pL_def pR_def)
  have u: "snd np \<le> maxProportion_fl fl"
    unfolding np_def by (rule redistribute_fl_right_upper)
  have l: "minProportion_fl fl (availableWidth r) \<le> maxProportion_fl fl \<longrightarrow>
             minProportion_fl fl (availableWidth r) \<le> snd np"
    unfolding np_def by (simp add: redistribute_fl_right_lower)
  have d: "minProportion_fl fl (availableWidth r) \<le> maxProportion_fl fl \<longrightarrow>
             minProportion_fl fl (availableWidth r) \<le> fst np \<and> fst np \<le> maxProportion_fl fl
             \<or> fst np = fl (pL + fl (pR - snd np))"
    unfolding np_def using redistribute_fl_left [of fl "availableWidth r" pL pR deltaX] by blast
  have eu: "(\<forall>x. fl x = x) \<and> pL + pR \<le> 2 * maxProportion_fl fl \<longrightarrow> fst np \<le> maxProportion_fl fl"
  proof
    assume a: "(\<forall>x. fl x = x) \<and> pL + pR \<le> 2 * maxProportion_fl fl"
    then have e: "fl = exact" by (simp add: exact_eq)
    have m: "maxProportion_fl exact = maxProportion"
      by (simp add: maxProportion_fl_def maxProportion_def exact_def)
    show "fst np \<le> maxProportion_fl fl"
      using a redistribute_left_upper_exact [of pL pR "availableWidth r" deltaX]
      by (simp add: e m np_def redistribute_fl_exact)
  qed
  have el: "(\<forall>x. fl x = x) \<and> minProportion_fl fl (availableWidth r) \<le> maxProportion_fl fl
              \<and> 2 * minProportion_fl fl (availableWidth r) \<le> pL + pR \<longrightarrow>
            minProportion_fl fl (availableWidth r) \<le> fst np"
  proof
    assume a: "(\<forall>x. fl x = x) \<and> minProportion_fl fl (availableWidth r) \<le> maxProportion_fl fl
              \<and> 2 * minProportion_fl fl (availableWidth r) \<le> pL + pR"
    then have e: "fl = exact" by (simp add: exact_eq)
    have m: "maxProportion_fl exact = maxProportion"
      by (simp add: maxProportion_fl_def maxProportion_def exact_def)
    have n: "minProportion_fl exact (availableWidth r)
               = real_of_int minWidthChars / real_of_int (availableWidth r)"
      by (simp add: minProportion_fl_def exact_def)
    show "minProportion_fl fl (availableWidth r) \<le> fst np"
      using a redistribute_left_lower_exact [of "availableWidth r" pL pR deltaX]
      by (simp add: e m n np_def redistribute_fl_exact)
  qed
  show ?thesis
    unfolding Let_def
    using c u l d eu el
    unfolding v_def np_def pL_def pR_def
    by blast
qed

theorem drag_pair_within_bounds_witness:
  "(\<forall>x. exact x = x)
   \<and> minProportion_fl exact 99 \<le> maxProportion_fl exact
   \<and> 2 * minProportion_fl exact 99 \<le> 1 / 2 + 1 / 2
   \<and> 1 / 2 + 1 / 2 \<le> 2 * maxProportion_fl exact
   \<and> redistribute_fl exact (1 / 2) (1 / 2) 99 (- 40) = (35 / 99, 64 / 99)
   \<and> updateProportionsFromDrag_fl exact
       \<lparr>id_str = ''p'', width = 100, height = 24, children = [Child [], Child []],
          proportions = [1 / 2, 1 / 2], dragHandler = NewDragHandler\<rparr> ''phandle_0'' (- 40)
     = Inr \<lparr>id_str = ''p'', width = 100, height = 24, children = [Child [], Child []],
              proportions = [35 / 99, 64 / 99], dragHandler = NewDragHandler\<rparr>"
proof -
  let ?r = "\<lparr>id_str = ''p'', width = 100, height = 24, children = [Child [], Child []],
              proportions = [1 / 2, 1 / 2], dragHandler = NewDragHandler\<rparr>"
  have h1: "length (children ?r) = length (proportions ?r)" by simp
  have h2: "0 < length (children ?r) - 1" by simp
  have aw: "availableWidth ?r = 99"
    by (simp add: availableWidth_def wrap64_def handleWidth_def)
  have h3: "0 < availableWidth ?r" by (simp add: aw)
  have x: "\<forall>x. exact x = x" by (simp add: exact_def)
  have lo: "minProportion_fl exact 99 = 35 / 99"
    by (simp add: minProportion_fl_def minWidthChars_def exact_def)
  have hi: "maxProportion_fl exact = 7 / 10"
    by (simp add: maxProportion_fl_def exact_def)
  have np: "redistribute_fl exact (1 / 2) (1 / 2) 99 (- 40) = (35 / 99, 64 / 99)"
    by (simp add: redistribute_fl_steps lo hi Let_def exact_def)
  have id0: "getHandleID ?r (int 0) = ''phandle_0''"
    by (simp add: getHandleID_def Itoa_def digits.simps digitChar_def)
  note t = drag_pair_within_bounds [OF h1 h2 h3, of exact "- 40", unfolded Let_def id0]
  from t have "updateProportionsFromDrag_fl exact ?r ''phandle_0'' (- 40)
      = Inr (?r\<lparr>proportions :=
          (if 0 < total_fl exact ((proportions ?r)
                 [0 := fst (redistribute_fl exact (proportions ?r ! 0) (proportions ?r ! Suc 0)
                              (availableWidth ?r) (- 40)),
                  Suc 0 := snd (redistribute_fl exact (proportions ?r ! 0) (proportions ?r ! Suc 0)
                              (availableWidth ?r) (- 40))])
           then map (\<lambda>p. exact (p / total_fl exact ((proportions ?r)
                 [0 := fst (redistribute_fl exact (proportions ?r ! 0) (proportions ?r ! Suc 0)
                              (availableWidth ?r) (- 40)),
                  Suc 0 := snd (redistribute_fl exact (proportions ?r ! 0) (proportions ?r ! Suc 0)
                              (availableWidth ?r) (- 40))])))
                  ((proportions ?r)
                 [0 := fst (redistribute_fl exact (proportions ?r ! 0) (proportions ?r ! Suc 0)
                              (availableWidth ?r) (- 40)),
                  Suc 0 := snd (redistribute_fl exact (proportions ?r ! 0) (proportions ?r ! Suc 0)
                              (availableWidth ?r) (- 40))])
           else (proportions ?r)
                 [0 := fst (redistribute_fl exact (proportions ?r ! 0) (proportions ?r ! Suc 0)
                              (availableWidth ?r) (- 40)),
                  Suc 0 := snd (redistribute_fl exact (proportions ?r ! 0) (proportions ?r ! Suc 0)
                              (availableWidth ?r) (- 40))])\<rparr>)"
    by (rule conjunct1)
  then have c: "updateProportionsFromDrag_fl exact ?r ''phandle_0'' (- 40)
     = Inr \<lparr>id_str = ''p'', width = 100, height = 24, children = [Child [], Child []],
              proportions = [35 / 99, 64 / 99], dragHandler = NewDragHandler\<rparr>"
    by (simp add: aw np total_fl_def exact_def)
  show ?thesis
    using x c np by (simp add: lo hi)
qed

text \<open>
  Claim C3, as the source has it.  The four checks keep the sum of the pair only up to
  the rounding of \<open>float64\<close>.  For two panes at \<open>[0.5, 0.5]\<close> in a container of width 100
  and a drag by \<open>-40\<close> columns, the first check sets the left value to the \<open>float64\<close>
  \<open>35/99\<close> and recomputes the right one; the pair that is committed is
  \<open>(0.35353535353535354, 0.6464646464646464)\<close>, whose sum is \<open>1 - 2 ^ (-54)\<close> and not 1.
\<close>

theorem clamp_pair_sum_counterexample:
  "redistribute_fl fl64 (1 / 2) (1 / 2) 99 (- 40)
     = (6368726745776459 / 18014398509481984, 2911417940926381 / 4503599627370496)
   \<and> updateProportionsFromDrag_fl fl64
       \<lparr>id_str = ''p'', width = 100, height = 24, children = [Child [], Child []],
          proportions = [1 / 2, 1 / 2], dragHandler = NewDragHandler\<rparr> ''phandle_0'' (- 40)
     = Inr \<lparr>id_str = ''p'', width = 100, height = 24, children = [Child [], Child []],
              proportions = [6368726745776459 / 18014398509481984,
                             2911417940926381 / 4503599627370496],
              dragHandler = NewDragHandler\<rparr>
   \<and> (6368726745776459 / 18014398509481984 + 2911417940926381 / 4503599627370496 :: real)
       \<noteq> 1 / 2 + 1 / 2"
  by (simp add: rounded_eval fl64_eval)

text \<open>
  Claim C3, amended.  For every rounding, a drag that commits computes the tentative pair
  \<open>s0\<close> and then applies four checks in this order, each to the result of the one
  before: if the left value is below the minimum it becomes the minimum and the right
  value becomes \<open>pR + (pL - minimum)\<close>; if the left value is above the maximum it becomes
  the maximum and the right value becomes \<open>pR + (pL - maximum)\<close>; the same two checks on
  the right value, which recompute the left value as \<open>pL + (pR - minimum)\<close> and
  \<open>pL + (pR - maximum)\<close>.  The pair after the fourth check is what is written into the
  proportion vector, before the vector is renormalised.  In exact arithmetic the
  tentative pair and the pair after each check sum to \<open>pL + pR\<close>.
\<close>

theorem clamps_in_order:
  assumes "findHandleIndex r handleID = int i" and "0 < availableWidth r"
      and "Suc i < length (proportions r)"
  shows "let pL = proportions r ! i; pR = proportions r ! Suc i;
             lo = minProportion_fl fl (availableWidth r); hi = maxProportion_fl fl;
             deltaPercent
               = fl (fl (real_of_int deltaX) / fl (real_of_int (availableWidth r)));
             s0 = (fl (pL + deltaPercent), fl (pR - deltaPercent));
             s1 = (if fst s0 < lo then (lo, fl (pR + fl (pL - lo))) else s0);
             s2 = (if hi < fst s1 then (hi, fl (pR + fl (pL - hi))) else s1);
             s3 = (if snd s2 < lo then (fl (pL + fl (pR - lo)), lo) else s2);
             s4 = (if hi < snd s3 then (fl (pL + fl (pR - hi)), hi) else s3)
         in updateProportionsFromDrag_fl fl r handleID deltaX
              = Inr (normalizeProportions_fl fl
                       (r\<lparr>proportions := (proportions r)[i := fst s4, Suc i := snd s4]\<rparr>))
            \<and> ((\<forall>x. fl x = x) \<longrightarrow>
                  fst s0 + snd s0 = pL + pR
                  \<and> fst s1 + snd s1 = pL + pR
                  \<and> fst s2 + snd s2 = pL + pR
                  \<and> fst s3 + snd s3 = pL + pR
                  \<and> fst s4 + snd s4 = pL + pR)"
proof -
  have c: "updateProportionsFromDrag_fl fl r handleID deltaX
             = Inr (normalizeProportions_fl fl
                    (r\<lparr>proportions :=
                         (proportions r)
                           [i := fst (redistribute_fl fl (proportions r ! i) (proportions r ! Suc i)
                                        (availableWidth r) deltaX),
                            Suc i := snd (redistribute_fl fl (proportions r ! i) (proportions r ! Suc i)
                                        (availableWidth r) deltaX)]\<rparr>))"
    using assms by (rule drag_fl_commit)
  show ?thesis
    unfolding c redistribute_fl_steps Let_def
    by (simp add: Let_def)
qed

theorem clamps_in_order_witness:
  "findHandleIndex
      \<lparr>id_str = ''p'', width = 100, height = 24, children = [Child [], Child []],
         proportions = [1 / 2, 1 / 2], dragHandler = NewDragHandler\<rparr> ''phandle_0'' = int 0
   \<and> 0 < availableWidth
          \<lparr>id_str = ''p'', width = 100, height = 24, children = [Child [], Child []],
             proportions = [1 / 2, 1 / 2], dragHandler = NewDragHandler\<rparr>
   \<and> (\<forall>x. exact x = x)
   \<and> updateProportionsFromDrag_fl exact
       \<lparr>id_str = ''p'', width = 100, height = 24, children = [Child [], Child []],
          proportions = [1 / 2, 1 / 2], dragHandler = NewDragHandler\<rparr> ''phandle_0'' (- 40)
     = Inr \<lparr>id_str = ''p'', width = 100, height = 24, children = [Child [], Child []],
              proportions = [35 / 99, 64 / 99], dragHandler = NewDragHandler\<rparr>
   \<and> (35 / 99 + 64 / 99 :: real) = 1 / 2 + 1 / 2"
proof -
  let ?r = "\<lparr>id_str = ''p'', width = 100, height = 24, children = [Child [], Child []],
              proportions = [1 / 2, 1 / 2], dragHandler = NewDragHandler\<rparr>"
  have h1: "findHandleIndex ?r ''phandle_0'' = int 0"
    by (simp add: findHandleIndex_def getHandleID_def Itoa_def digits.simps digitChar_def)
  have aw: "availableWidth ?r = 99"
    by (simp add: availableWidth_def wrap64_def handleWidth_def)
  have h2: "0 < availableWidth ?r"
    by (simp add: aw)
  have h3: "Suc 0 < length (proportions ?r)"
    by simp
  have x: "\<forall>x. exact x = x"
    by (simp add: exact_def)
  have lo: "minProportion_fl exact 99 = 35 / 99"
    by (simp add: minProportion_fl_def minWidthChars_def exact_def)
  have hi: "maxProportion_fl exact = 7 / 10"
    by (simp add: maxProportion_fl_def exact_def)
  note t = clamps_in_order [OF h1 h2 h3, of exact "- 40", unfolded Let_def]
  have c: "updateProportionsFromDrag_fl exact ?r ''phandle_0'' (- 40)
     = Inr \<lparr>id_str = ''p'', width = 100, height = 24, children = [Child [], Child []],
              proportions = [35 / 99, 64 / 99], dragHandler = NewDragHandler\<rparr>"
    using t [THEN conjunct1]
    by (simp add: aw lo hi normalizeProportions_fl_eq total_fl_def exact_def)
  show ?thesis
    using h1 h2 x c by simp
qed

text \<open>
  Claim C4, as the source has it.  The claim fails as stated: the resize has no guard on
  the available width.  A container of two panes at \<open>[0.5, 0.5]\<close> that receives the size
  \<open>(-2, 1)\<close> has the available width \<open>-3\<close>; it stores the size and forwards the width
  \<open>-1\<close> to both panes.
\<close>

theorem resize_degenerate_counterexample:
  "availableWidth
     \<lparr>id_str = ''p'', width = - 2, height = 1, children = [Child [], Child []],
        proportions = [1 / 2, 1 / 2], dragHandler = NewDragHandler\<rparr> \<le> 0
   \<and> Update disabledRegistry
       \<lparr>id_str = ''p'', width = 0, height = 0, children = [Child [], Child []],
          proportions = [1 / 2, 1 / 2], dragHandler = NewDragHandler\<rparr>
       (WindowSizeMsg (- 2) 1)
     = Inr \<lparr>id_str = ''p'', width = - 2, height = 1,
              children = [Child [WindowSizeMsg (- 1) 1], Child [WindowSizeMsg (- 1) 1]],
              proportions = [1 / 2, 1 / 2], dragHandler = NewDragHandler\<rparr>"
  by (simp add: container_eval)

text \<open>
  Claim C4, amended.  When the available width is not positive, the redistribution
  \<open>updateProportionsFromDrag\<close> returns the container as it is.  The resize has no such
  guard: for every width and height it stores them and forwards to every pane the height
  and the width \<open>int(availableWidth * proportion)\<close>; when the available width is not
  positive, that width is at most 0 for a proportion that is not negative.
\<close>

theorem degenerate_geometry:
  "(availableWidth r \<le> 0 \<longrightarrow> updateProportionsFromDrag r handleID deltaX = Inr r)
   \<and> (length (children r) \<le> length (proportions r) \<longrightarrow>
        Update inBounds r (WindowSizeMsg w h)
          = Inr (r\<lparr>width := w, height := h,
                   children :=
                     map2 (\<lambda>c p. childUpdate c
                            (WindowSizeMsg
                               (toInt (real_of_int (availableWidth (r\<lparr>width := w, height := h\<rparr>)) * p))
                               h))
                       (children r) (proportions r)\<rparr>))
   \<and> (availableWidth (r\<lparr>width := w, height := h\<rparr>) \<le> 0 \<and> 0 \<le> p \<longrightarrow>
        toInt (real_of_int (availableWidth (r\<lparr>width := w, height := h\<rparr>)) * p) \<le> 0)"
proof (intro conjI impI)
  assume "availableWidth r \<le> 0"
  then show "updateProportionsFromDrag r handleID deltaX = Inr r"
    by (rule drag_noop_degenerate)
next
  assume "length (children r) \<le> length (proportions r)"
  then have "length (children (r\<lparr>width := w, height := h\<rparr>))
               \<le> length (proportions (r\<lparr>width := w, height := h\<rparr>))"
    by simp
  from resizeChildren_ok [OF this]
  show "Update inBounds r (WindowSizeMsg w h)
          = Inr (r\<lparr>width := w, height := h,
                   children :=
                     map2 (\<lambda>c p. childUpdate c
                            (WindowSizeMsg
                               (toInt (real_of_int (availableWidth (r\<lparr>width := w, height := h\<rparr>)) * p))
                               h))
                       (children r) (proportions r)\<rparr>)"
    by (simp add: Update_def)
next
  assume a: "availableWidth (r\<lparr>width := w, height := h\<rparr>) \<le> 0 \<and> 0 \<le> p"
  then have "real_of_int (availableWidth (r\<lparr>width := w, height := h\<rparr>)) * p \<le> 0"
    by (simp add: mult_nonpos_nonneg)
  then show "toInt (real_of_int (availableWidth (r\<lparr>width := w, height := h\<rparr>)) * p) \<le> 0"
    by (rule toInt_nonpos)
qed

theorem degenerate_geometry_witness:
  "availableWidth \<lparr>id_str = ''p'', width = 0, height = 0, children = [Child [], Child []],
       proportions = [1 / 2, 1 / 2], dragHandler = NewDragHandler\<rparr> \<le> 0
   \<and> updateProportionsFromDrag
       \<lparr>id_str = ''p'', width = 0, height = 0, children = [Child [], Child []],
          proportions = [1 / 2, 1 / 2], dragHandler = NewDragHandler\<rparr> ''phandle_0'' 10
     = Inr \<lparr>id_str = ''p'', width = 0, height = 0, children = [Child [], Child []],
              proportions = [1 / 2, 1 / 2], dragHandler = NewDragHandler\<rparr>
   \<and> Update disabledRegistry
       \<lparr>id_str = ''p'', width = 0, height = 0, children = [Child [], Child []],
          proportions = [1 / 2, 1 / 2], dragHandler = NewDragHandler\<rparr>
       (WindowSizeMsg (- 2) 1)
     = Inr \<lparr>id_str = ''p'', width = - 2, height = 1,
              children = [Child [WindowSizeMsg (- 1) 1], Child [WindowSizeMsg (- 1) 1]],
              proportions = [1 / 2, 1 / 2], dragHandler = NewDragHandler\<rparr>
   \<and> toInt (real_of_int (- 3) * (1 / 2)) \<le> 0"
proof -
  let ?r = "\<lparr>id_str = ''p'', width = 0, height = 0, children = [Child [], Child []],
              proportions = [1 / 2, 1 / 2], dragHandler = NewDragHandler\<rparr>"
  have a0: "availableWidth ?r = - 1"
    by (simp add: availableWidth_def wrap64_def handleWidth_def)
  have h1: "availableWidth ?r \<le> 0"
    by (simp add: a0)
  have h2: "length (children ?r) \<le> length (proportions ?r)"
    by simp
  have h3: "availableWidth (?r\<lparr>width := - 2, height := 1\<rparr>) \<le> 0 \<and> (0::real) \<le> 1 / 2"
    by (simp add: availableWidth_def wrap64_def handleWidth_def)
  show ?thesis
    using h1 h2 h3
      degenerate_geometry [of ?r "''phandle_0''" 10 disabledRegistry "- 2" 1 "1 / 2"]
    by (simp add: availableWidth_def wrap64_def handleWidth_def childUpdate_def toInt_def)
qed

text \<open>
  Claim C5.  The scenario of two panes at \<open>[0.5, 0.5]\<close> in a container of width 100: the
  available width is 99; a drag of the only handle by 10 columns passes the four checks
  unchanged and commits \<open>[1/2 + 10/99, 1/2 - 10/99] = [119/198, 79/198]\<close>, within a
  thousandth of \<open>[0.601, 0.399]\<close>; delivered as a motion of the mouse to a container that
  is dragging that handle, it makes the container forward the widths 59 and 39.  The last
  two conjuncts run the scenario from the constructor: a resize to width 100, a left press
  on the handle (whose region is column 49), and a motion to column 59.
\<close>

theorem scenario_two_panes_drag_ten:
  "availableWidth \<lparr>id_str = prefix, width = 100, height = h, children = [Child [], Child []],
       proportions = [1 / 2, 1 / 2],
       dragHandler = \<lparr>state = DragStateDragging, dragHandleID = prefix @ ''handle_0'', lastX = 49\<rparr>\<rparr>
     = 99
   \<and> redistribute (1 / 2) (1 / 2) 99 10 = (1 / 2 + 10 / 99, 1 / 2 - 10 / 99)
   \<and> updateProportionsFromDrag
       \<lparr>id_str = prefix, width = 100, height = h, children = [Child [], Child []],
          proportions = [1 / 2, 1 / 2],
          dragHandler = \<lparr>state = DragStateDragging, dragHandleID = prefix @ ''handle_0'', lastX = 49\<rparr>\<rparr>
       (prefix @ ''handle_0'') 10
     = Inr \<lparr>id_str = prefix, width = 100, height = h, children = [Child [], Child []],
              proportions = [119 / 198, 79 / 198],
              dragHandler = \<lparr>state = DragStateDragging, dragHandleID = prefix @ ''handle_0'', lastX = 49\<rparr>\<rparr>
   \<and> \<bar>119 / 198 - 601 / 1000\<bar> < (1 / 1000 :: real)
   \<and> \<bar>79 / 198 - 399 / 1000\<bar> < (1 / 1000 :: real)
   \<and> toInt (real_of_int 99 * (119 / 198)) = 59
   \<and> toInt (real_of_int 99 * (79 / 198)) = 39
   \<and> Update inBounds
       \<lparr>id_str = prefix, width = 100, height = h, children = [Child [], Child []],
          proportions = [1 / 2, 1 / 2],
          dragHandler = \<lparr>state = DragStateDragging, dragHandleID = prefix @ ''handle_0'', lastX = 49\<rparr>\<rparr>
       (Mouse \<lparr>X = 59, Y = y, Action = MouseActionMotion, Button = b\<rparr>)
     = Inr \<lparr>id_str = prefix, width = 100, height = h,
              children = [Child [WindowSizeMsg 59 h], Child [WindowSizeMsg 39 h]],
              proportions = [119 / 198, 79 / 198],
              dragHandler = \<lparr>state = DragStateDragging, dragHandleID = prefix @ ''handle_0'', lastX = 59\<rparr>\<rparr>
   \<and> NewResizableContainer prefix [Child [], Child []] [1 / 2, 1 / 2]
     = Inr \<lparr>id_str = prefix, width = 0, height = 0, children = [Child [], Child []],
              proportions = [1 / 2, 1 / 2], dragHandler = NewDragHandler\<rparr>
   \<and> applyOps
       \<lparr>id_str = prefix, width = 0, height = 0, children = [Child [], Child []],
          proportions = [1 / 2, 1 / 2], dragHandler = NewDragHandler\<rparr>
       [Deliver (\<lambda>handleID msg. handleID = prefix @ ''handle_0'' \<and> X msg = 49)
          (WindowSizeMsg 100 h),
        Deliver (\<lambda>handleID msg. handleID = prefix @ ''handle_0'' \<and> X msg = 49)
          (Mouse \<lparr>X = 49, Y = 0, Action = MouseActionPress, Button = MouseButtonLeft\<rparr>),
        Deliver (\<lambda>handleID msg. handleID = prefix @ ''handle_0'' \<and> X msg = 49)
          (Mouse \<lparr>X = 59, Y = 0, Action = MouseActionMotion, Button = MouseButtonLeft\<rparr>)]
     = Inr \<lparr>id_str = prefix, width = 100, height = h,
              children = [Child [WindowSizeMsg 49 h, WindowSizeMsg 59 h],
                          Child [WindowSizeMsg 49 h, WindowSizeMsg 39 h]],
              proportions = [119 / 198, 79 / 198],
              dragHandler = \<lparr>state = DragStateDragging, dragHandleID = prefix @ ''handle_0'', lastX = 59\<rparr>\<rparr>"
  by (simp add: container_eval)

text \<open>
  Claim C6, as the source has it.  The claim fails as stated: the renormalisation at the
  end of a drag divides every entry of the vector by its total, and with \<open>float64\<close>
  rounding that total is often not 1.  The constructor turns the initial proportions
  \<open>[1, 4, 1]\<close> into \<open>[0.16666666666666666, 0.6666666666666666, 0.16666666666666666]\<close>;
  in a container of width 100, a drag of handle 0 by one column then commits a vector
  whose total is \<open>1 - 2 ^ (-53)\<close>, and the proportion of pane 2 becomes
  \<open>0.16666666666666669\<close>.
\<close>

theorem drag_changes_other_panes_counterexample:
  "NewResizableContainer_fl fl64 ''p'' [Child [], Child [], Child []] [1, 4, 1]
     = Inr \<lparr>id_str = ''p'', width = 0, height = 0, children = [Child [], Child [], Child []],
              proportions = [6004799503160661 / 36028797018963968,
                             6004799503160661 / 9007199254740992,
                             6004799503160661 / 36028797018963968],
              dragHandler = NewDragHandler\<rparr>
   \<and> updateProportionsFromDrag_fl fl64
       \<lparr>id_str = ''p'', width = 100, height = 24, children = [Child [], Child [], Child []],
          proportions = [6004799503160661 / 36028797018963968,
                         6004799503160661 / 9007199254740992,
                         6004799503160661 / 36028797018963968],
          dragHandler = NewDragHandler\<rparr> ''phandle_0'' 1
     = Inr \<lparr>id_str = ''p'', width = 100, height = 24, children = [Child [], Child [], Child []],
              proportions = [804214219173303 / 2251799813685248,
                             8578285004515231 / 18014398509481984,
                             3002399751580331 / 18014398509481984],
              dragHandler = NewDragHandler\<rparr>
   \<and> (3002399751580331 / 18014398509481984 :: real) \<noteq> 6004799503160661 / 36028797018963968"
  by (simp add: rounded_eval fl64_eval)

text \<open>
  Claim C6, amended.  For every rounding and every container with one proportion per
  child, a drag of handle \<open>h\<close> returns a container with as many proportions as before.
  When the available width is positive and the total \<open>t\<close> of the vector with the two new
  values is positive, the proportion at every index other than \<open>h\<close> and \<open>h + 1\<close> becomes
  the old proportion divided by \<open>t\<close>; otherwise it is what it was.  In exact arithmetic,
  when the proportions sum to 1 before the drag, \<open>t\<close> is 1 and those proportions are
  unchanged.
\<close>

theorem drag_renormalises_other_panes:
  assumes "length (children r) = length (proportions r)"
      and "h < length (children r) - 1"
  shows "\<exists>r'. updateProportionsFromDrag_fl fl r (getHandleID r (int h)) deltaX = Inr r'
              \<and> length (proportions r') = length (proportions r)
              \<and> (let np = redistribute_fl fl (proportions r ! h) (proportions r ! Suc h)
                            (availableWidth r) deltaX;
                      t = total_fl fl ((proportions r)[h := fst np, Suc h := snd np])
                  in \<forall>j < length (proportions r). j \<noteq> h \<longrightarrow> j \<noteq> Suc h \<longrightarrow>
                       proportions r' ! j
                         = (if 0 < availableWidth r \<and> 0 < t
                            then fl (proportions r ! j / t) else proportions r ! j))
              \<and> ((\<forall>x. fl x = x) \<and> sum_list (proportions r) = 1 \<longrightarrow>
                    (\<forall>j < length (proportions r). j \<noteq> h \<longrightarrow> j \<noteq> Suc h \<longrightarrow>
                       proportions r' ! j = proportions r ! j))"
proof (cases "0 < availableWidth r")
  case True
  have f: "findHandleIndex r (getHandleID r (int h)) = int h"
    using assms(2) by (rule findHandleIndex_own)
  have len: "Suc h < length (proportions r)"
    using assms(1,2) by simp
  define np where "np = redistribute_fl fl (proportions r ! h) (proportions r ! Suc h)
                          (availableWidth r) deltaX"
  define v where "v = (proportions r)[h := fst np, Suc h := snd np]"
  define r' where "r' = r\<lparr>proportions :=
                      (if 0 < total_fl fl v then map (\<lambda>p. fl (p / total_fl fl v)) v else v)\<rparr>"
  have c: "updateProportionsFromDrag_fl fl r (getHandleID r (int h)) deltaX = Inr r'"
    using drag_fl_commit [OF f True len, of fl deltaX]
    by (simp add: normalizeProportions_fl_eq r'_def v_def np_def)
  have l: "length (proportions r') = length (proportions r)"
    by (simp add: r'_def v_def)
  have o: "proportions r' ! j
             = (if 0 < availableWidth r \<and> 0 < total_fl fl v
                then fl (proportions r ! j / total_fl fl v) else proportions r ! j)"
    if "j < length (proportions r)" "j \<noteq> h" "j \<noteq> Suc h" for j
    using that True by (simp add: r'_def v_def)
  have e: "proportions r' ! j = proportions r ! j"
    if x: "(\<forall>x. fl x = x) \<and> sum_list (proportions r) = 1"
      and j: "j < length (proportions r)" "j \<noteq> h" "j \<noteq> Suc h" for j
  proof -
    have fe: "fl = exact" using x by (simp add: exact_eq)
    have "sum_list v = sum_list (proportions r)"
      unfolding v_def np_def fe redistribute_fl_exact using len by (rule committed_sum)
    then have "total_fl fl v = 1"
      using x by (simp add: fe total_fl_exact total_sum_list)
    then show ?thesis
      using o [OF j] x by simp
  qed
  show ?thesis
    using c l o e unfolding Let_def v_def np_def by blast
next
  case False
  then have "updateProportionsFromDrag_fl fl r (getHandleID r (int h)) deltaX = Inr r"
    by (simp add: drag_fl_noop_degenerate)
  then show ?thesis
    using False by (simp add: Let_def)
qed

theorem drag_renormalises_other_panes_witness:
  "(\<forall>x. exact x = x)
   \<and> sum_list [33 / 100, 33 / 100, 34 / 100 :: real] = 1
   \<and> (\<exists>r'. updateProportionsFromDrag_fl exact
              \<lparr>id_str = ''p'', width = 100, height = 24,
                 children = [Child [], Child [], Child []],
                 proportions = [33 / 100, 33 / 100, 34 / 100], dragHandler = NewDragHandler\<rparr>
              ''phandle_0'' 1 = Inr r'
           \<and> length (proportions r') = 3
           \<and> proportions r' ! 2 = 34 / 100)"
proof -
  let ?c = "\<lparr>id_str = ''p'', width = 100, height = 24,
              children = [Child [], Child [], Child []],
              proportions = [33 / 100, 33 / 100, 34 / 100], dragHandler = NewDragHandler\<rparr>"
  have h1: "length (children ?c) = length (proportions ?c)"
    by simp
  have h2: "0 < length (children ?c) - 1"
    by simp
  have x: "(\<forall>x. exact x = x) \<and> sum_list (proportions ?c) = 1"
    by (simp add: exact_def)
  have id0: "getHandleID ?c (int 0) = ''phandle_0''"
    by (simp add: getHandleID_def Itoa_def digits.simps digitChar_def)
  from drag_renormalises_other_panes [OF h1 h2, of exact 1] obtain r' where
    r': "updateProportionsFromDrag_fl exact ?c (getHandleID ?c (int 0)) 1 = Inr r'"
        "length (proportions r') = length (proportions ?c)"
        "(\<forall>x. exact x = x) \<and> sum_list (proportions ?c) = 1 \<longrightarrow>
           (\<forall>j < length (proportions ?c). j \<noteq> 0 \<longrightarrow> j \<noteq> Suc 0 \<longrightarrow>
              proportions r' ! j = proportions ?c ! j)"
    by blast
  have p2: "proportions r' ! 2 = 34 / 100"
    using r'(3) x by simp
  have l: "length (proportions r') = 3"
    using r'(2) by simp
  have s: "sum_list [33 / 100, 33 / 100, 34 / 100 :: real] = 1"
    by simp
  show ?thesis
    using r'(1) [unfolded id0] l p2 x s by blast
qed

text \<open>
  Claim C7.  Two resizes with the same width and height, one after the other, on a
  container that has a proportion for every child: both return, both hand every pane the
  same message (the same width and the same height), and the container after the second
  differs from the container after the first in nothing but the panes, so the stored
  width and height are those of the first.
\<close>

theorem resize_idempotent:
  assumes "length (children r) \<le> length (proportions r)"
  shows "\<exists>r1 r2. Update inBounds r (WindowSizeMsg w h) = Inr r1
                \<and> Update inBounds r1 (WindowSizeMsg w h) = Inr r2
                \<and> r2\<lparr>children := children r1\<rparr> = r1
                \<and> width r1 = w \<and> height r1 = h
                \<and> length (children r1) = length (children r)
                \<and> length (children r2) = length (children r)
                \<and> (\<forall>i < length (children r).
                      received (children r1 ! i)
                        = received (children r ! i)
                            @ [WindowSizeMsg (toInt (real_of_int (availableWidth r1) * proportions r ! i)) h]
                    \<and> received (children r2 ! i)
                        = received (children r1 ! i)
                            @ [WindowSizeMsg (toInt (real_of_int (availableWidth r1) * proportions r ! i)) h])"
proof -
  define r0 where "r0 = r\<lparr>width := w, height := h\<rparr>"
  define f where "f = (\<lambda>p. WindowSizeMsg (toInt (real_of_int (availableWidth r0) * p)) h)"
  define r1 where "r1 = r0\<lparr>children := map2 (\<lambda>c p. childUpdate c (f p)) (children r) (proportions r)\<rparr>"
  define r2 where "r2 = r1\<lparr>children := map2 (\<lambda>c p. childUpdate c (f p)) (children r1) (proportions r)\<rparr>"
  have l0: "length (children r0) \<le> length (proportions r0)"
    using assms by (simp add: r0_def)
  have u1: "Update inBounds r (WindowSizeMsg w h) = Inr r1"
    using resizeChildren_ok [OF l0] by (simp add: Update_def r1_def r0_def f_def)
  have len1: "length (children r1) = length (children r)"
    using assms by (simp add: r1_def)
  have aw1: "availableWidth r1 = availableWidth r0"
    using len1 by (simp add: availableWidth_def r1_def r0_def)
  have same: "r1\<lparr>width := w, height := h\<rparr> = r1"
    by (simp add: r1_def r0_def)
  have l1: "length (children r1) \<le> length (proportions r1)"
    using assms len1 by (simp add: r1_def r0_def)
  have u2: "Update inBounds r1 (WindowSizeMsg w h) = Inr r2"
    using resizeChildren_ok [OF l1] aw1
    by (simp add: Update_def same r2_def f_def) (simp add: r1_def r0_def)
  have len2: "length (children r2) = length (children r)"
    using assms len1 by (simp add: r2_def)
  have n1: "received (children r1 ! i) = received (children r ! i) @ [f (proportions r ! i)]"
    if "i < length (children r)" for i
    using map2_childUpdate_nth [OF that assms, of f] by (simp add: r1_def)
  have n2: "received (children r2 ! i) = received (children r1 ! i) @ [f (proportions r ! i)]"
    if "i < length (children r)" for i
  proof -
    have "i < length (children r1)" using that len1 by simp
    moreover have "length (children r1) \<le> length (proportions r)" using assms len1 by simp
    ultimately show ?thesis
      using map2_childUpdate_nth [of i "children r1" "proportions r" f] by (simp add: r2_def)
  qed
  have k: "r2\<lparr>children := children r1\<rparr> = r1"
    by (simp add: r2_def)
  have wh: "width r1 = w \<and> height r1 = h"
    by (simp add: r1_def r0_def)
  show ?thesis
    using u1 u2 k wh len1 len2 n1 n2 unfolding f_def aw1 [symmetric] by blast
qed

theorem resize_idempotent_witness:
  "Update disabledRegistry
      \<lparr>id_str = ''p'', width = 0, height = 0, children = [Child [], Child []],
         proportions = [1 / 2, 1 / 2], dragHandler = NewDragHandler\<rparr> (WindowSizeMsg 100 24)
    = Inr \<lparr>id_str = ''p'', width = 100, height = 24,
             children = [Child [WindowSizeMsg 49 24], Child [WindowSizeMsg 49 24]],
             proportions = [1 / 2, 1 / 2], dragHandler = NewDragHandler\<rparr>
   \<and> Update disabledRegistry
      \<lparr>id_str = ''p'', width = 100, height = 24,
         children = [Child [WindowSizeMsg 49 24], Child [WindowSizeMsg 49 24]],
         proportions = [1 / 2, 1 / 2], dragHandler = NewDragHandler\<rparr> (WindowSizeMsg 100 24)
    = Inr \<lparr>id_str = ''p'', width = 100, height = 24,
             children = [Child [WindowSizeMsg 49 24, WindowSizeMsg 49 24],
                         Child [WindowSizeMsg 49 24, WindowSizeMsg 49 24]],
             proportions = [1 / 2, 1 / 2], dragHandler = NewDragHandler\<rparr>"
proof -
  let ?r = "\<lparr>id_str = ''p'', width = 0, height = 0, children = [Child [], Child []],
              proportions = [1 / 2, 1 / 2], dragHandler = NewDragHandler\<rparr>"
  have h: "length (children ?r) \<le> length (proportions ?r)"
    by simp
  have e1: "Update disabledRegistry ?r (WindowSizeMsg 100 24)
      = Inr \<lparr>id_str = ''p'', width = 100, height = 24,
             children = [Child [WindowSizeMsg 49 24], Child [WindowSizeMsg 49 24]],
             proportions = [1 / 2, 1 / 2], dragHandler = NewDragHandler\<rparr>"
    by (simp add: Update_def resizeChildren_def availableWidth_def wrap64_def handleWidth_def
          childUpdate_def toInt_def)
  obtain r1 r2 where
    u: "Update disabledRegistry ?r (WindowSizeMsg 100 24) = Inr r1"
       "Update disabledRegistry r1 (WindowSizeMsg 100 24) = Inr r2"
       "r2\<lparr>children := children r1\<rparr> = r1"
    using resize_idempotent [OF h, of disabledRegistry 100 24] by blast
  have e2: "Update disabledRegistry
      \<lparr>id_str = ''p'', width = 100, height = 24,
         children = [Child [WindowSizeMsg 49 24], Child [WindowSizeMsg 49 24]],
         proportions = [1 / 2, 1 / 2], dragHandler = NewDragHandler\<rparr> (WindowSizeMsg 100 24)
    = Inr \<lparr>id_str = ''p'', width = 100, height = 24,
             children = [Child [WindowSizeMsg 49 24, WindowSizeMsg 49 24],
                         Child [WindowSizeMsg 49 24, WindowSizeMsg 49 24]],
             proportions = [1 / 2, 1 / 2], dragHandler = NewDragHandler\<rparr>"
    by (simp add: Update_def resizeChildren_def availableWidth_def wrap64_def handleWidth_def
          childUpdate_def toInt_def)
  show ?thesis
    using u e1 e2 by simp
qed

text \<open>
  Claim C8.  A drag whose handle identifier is none of the handle identifiers of the
  container is ignored: \<open>updateProportionsFromDrag\<close> returns the container it was given,
  with every field as it was.
\<close>

theorem unknown_handle_ignored:
  assumes "handleID \<notin> set (getHandleIDs r)"
  shows "updateProportionsFromDrag r handleID deltaX = Inr r"
proof -
  have "findHandleIndex r handleID = - 1"
    using findHandleIndex_cases [of r handleID] assms
    by (auto simp: getHandleIDs_def)
  then show ?thesis
    by (rule drag_noop_unknown)
qed

theorem unknown_handle_ignored_witness:
  "''phandle_2'' \<notin> set (getHandleIDs
       \<lparr>id_str = ''p'', width = 100, height = 24, children = [Child [], Child []],
          proportions = [1 / 2, 1 / 2], dragHandler = NewDragHandler\<rparr>)
   \<and> updateProportionsFromDrag
       \<lparr>id_str = ''p'', width = 100, height = 24, children = [Child [], Child []],
          proportions = [1 / 2, 1 / 2], dragHandler = NewDragHandler\<rparr> ''phandle_2'' 10
     = Inr \<lparr>id_str = ''p'', width = 100, height = 24, children = [Child [], Child []],
              proportions = [1 / 2, 1 / 2], dragHandler = NewDragHandler\<rparr>"
proof -
  have h: "''phandle_2'' \<notin> set (getHandleIDs
       \<lparr>id_str = ''p'', width = 100, height = 24, children = [Child [], Child []],
          proportions = [1 / 2, 1 / 2], dragHandler = NewDragHandler\<rparr>)"
    by (simp add: getHandleIDs_def getHandleID_def Itoa_def digits.simps digitChar_def)
  show ?thesis
    using h unknown_handle_ignored [OF h, of 10] by simp
qed

section \<open>Properties of the drag handler\<close>

lemma press_outside_unhandled:
  assumes "Action msg = MouseActionPress"
      and "\<forall>h \<in> set handleIDs. \<not> inBounds h msg"
  shows "HandleMouseEvent inBounds d msg handleIDs = (d, False, '''', 0)"
proof -
  have "find (\<lambda>h. inBounds h msg) handleIDs = None"
    using assms(2) by (simp add: find_None_iff)
  then show ?thesis
    using assms(1) by (simp add: HandleMouseEvent_def)
qed

lemma motion_idle_unhandled:
  assumes "Action msg = MouseActionMotion" and "state d = DragStateIdle"
  shows "HandleMouseEvent inBounds d msg handleIDs = (d, False, '''', 0)"
  using assms by (simp add: HandleMouseEvent_def)

lemma motions_idle_trace:
  assumes "\<forall>m \<in> set motions. Action m = MouseActionMotion" and "state d = DragStateIdle"
  shows "handleEvents inBounds handleIDs d motions = map (\<lambda>m. (d, False, '''', 0)) motions"
  using assms
proof (induction motions)
  case Nil
  show ?case by simp
next
  case (Cons m ms)
  have "HandleMouseEvent inBounds d m handleIDs = (d, False, '''', 0)"
    using Cons.prems by (simp add: motion_idle_unhandled)
  then show ?case
    using Cons by (simp add: Let_def)
qed

text \<open>
  Claim C9.  From the Idle state, a press whose cursor is inside no handle region,
  followed by any sequence of motion events, never starts a drag session: every event of
  the sequence, the press included, is reported unhandled with an empty identifier and a
  zero delta, the handler is left as it was after every event, and \<open>IsDragging\<close> is false
  after every event.
\<close>

theorem press_outside_then_motion_no_drag:
  assumes "state d = DragStateIdle"
      and "Action press = MouseActionPress"
      and "\<forall>h \<in> set handleIDs. \<not> inBounds h press"
      and "\<forall>m \<in> set motions. Action m = MouseActionMotion"
  shows "handleEvents inBounds handleIDs d (press # motions)
           = map (\<lambda>m. (d, False, '''', 0)) (press # motions)
         \<and> (\<forall>res \<in> set (handleEvents inBounds handleIDs d (press # motions)).
               \<not> IsDragging (fst res) \<and> \<not> fst (snd res))
         \<and> \<not> IsDragging d"
proof -
  have p: "HandleMouseEvent inBounds d press handleIDs = (d, False, '''', 0)"
    using assms(2,3) by (rule press_outside_unhandled)
  have t: "handleEvents inBounds handleIDs d (press # motions)
             = map (\<lambda>m. (d, False, '''', 0)) (press # motions)"
    using p motions_idle_trace [OF assms(4) assms(1)] by (simp add: Let_def)
  have i: "\<not> IsDragging d"
    using assms(1) by (simp add: IsDragging_def)
  show ?thesis
    unfolding t using i by auto
qed

theorem press_outside_then_motion_no_drag_witness:
  "handleEvents (\<lambda>h m. h = ''ahandle_0'' \<and> X m = 50) [''ahandle_0''] NewDragHandler
     [\<lparr>X = 10, Y = 3, Action = MouseActionPress, Button = MouseButtonLeft\<rparr>,
      \<lparr>X = 20, Y = 3, Action = MouseActionMotion, Button = MouseButtonLeft\<rparr>,
      \<lparr>X = 50, Y = 3, Action = MouseActionMotion, Button = MouseButtonLeft\<rparr>]
   = [(NewDragHandler, False, '''', 0), (NewDragHandler, False, '''', 0),
      (NewDragHandler, False, '''', 0)]
   \<and> \<not> IsDragging NewDragHandler"
  using press_outside_then_motion_no_drag
    [of NewDragHandler
        "\<lparr>X = 10, Y = 3, Action = MouseActionPress, Button = MouseButtonLeft\<rparr>"
        "[''ahandle_0'']" "\<lambda>h m. h = ''ahandle_0'' \<and> X m = 50"
        "[\<lparr>X = 20, Y = 3, Action = MouseActionMotion, Button = MouseButtonLeft\<rparr>,
          \<lparr>X = 50, Y = 3, Action = MouseActionMotion, Button = MouseButtonLeft\<rparr>]"]
  by (simp add: NewDragHandler_def)

text \<open>
  Claim C10.  Whenever \<open>HandleMouseEvent\<close> reports \<open>handled = false\<close>, it also reports the
  empty handle identifier and the delta 0, and the handler (its state, its handle
  identifier and its last X position) is exactly the handler before the call.
\<close>

theorem unhandled_reports_nothing_and_keeps_state:
  assumes "HandleMouseEvent inBounds d msg handleIDs = (d', handled, handleID, deltaX)"
      and "\<not> handled"
  shows "handleID = '''' \<and> deltaX = 0 \<and> d' = d"
  using assms
  by (auto simp: HandleMouseEvent_def Let_def
           split: MouseAction.splits if_splits option.splits)

theorem unhandled_reports_nothing_and_keeps_state_witness:
  "HandleMouseEvent (\<lambda>h m. False)
      \<lparr>state = DragStateDragging, dragHandleID = ''ahandle_0'', lastX = 7\<rparr>
      \<lparr>X = 10, Y = 3, Action = MouseActionRelease, Button = MouseButtonRight\<rparr> [''ahandle_0'']
    = (\<lparr>state = DragStateDragging, dragHandleID = ''ahandle_0'', lastX = 7\<rparr>, False, '''', 0)"
proof -
  have r: "HandleMouseEvent (\<lambda>h m. False)
          \<lparr>state = DragStateDragging, dragHandleID = ''ahandle_0'', lastX = 7\<rparr>
          \<lparr>X = 10, Y = 3, Action = MouseActionRelease, Button = MouseButtonRight\<rparr> [''ahandle_0'']
        = (\<lparr>state = DragStateDragging, dragHandleID = ''ahandle_0'', lastX = 7\<rparr>, False, '''', 0)"
    by (simp add: HandleMouseEvent_def)
  have h: "\<not> False"
    by simp
  show ?thesis
    using unhandled_reports_nothing_and_keeps_state [OF r h] r by simp
qed

end
